theory Spec2Isabelle
  imports Main "HOL-Library.Sublist" "HOL-Library.Word"
begin

section \<open>Python strings\<close>

text \<open>
  A Python \<open>str\<close> is modelled as a \<open>string\<close>, one \<open>char\<close> per code point, for the
  code points below 256. The functions below are \<open>str.isspace\<close>, \<open>str.strip\<close>,
  \<open>str.lower\<close>, \<open>str.endswith\<close>, \<open>str.startswith\<close> and the substring test \<open>a in b\<close>
  on that range.
\<close>

definition isspace :: "char \<Rightarrow> bool" where
  "isspace c =
     (let n = (of_char c :: nat)
      in (9 \<le> n \<and> n \<le> 13) \<or> (28 \<le> n \<and> n \<le> 32) \<or> n = 133 \<or> n = 160)"

definition strip :: "string \<Rightarrow> string" where
  "strip s = rev (dropWhile isspace (rev (dropWhile isspace s)))"

definition lower_char :: "char \<Rightarrow> char" where
  "lower_char c =
     (let n = (of_char c :: nat)
      in if (65 \<le> n \<and> n \<le> 90) \<or> (192 \<le> n \<and> n \<le> 222 \<and> n \<noteq> 215)
         then char_of (n + 32) else c)"

definition lower :: "string \<Rightarrow> string" where
  "lower s = map lower_char s"

definition endswith :: "string \<Rightarrow> string \<Rightarrow> bool" where
  "endswith s x = suffix x s"

definition startswith :: "string \<Rightarrow> string \<Rightarrow> bool" where
  "startswith s x = prefix x s"

text \<open>\<open>str_in a b\<close> is Python's \<open>a in b\<close> on strings: \<open>a\<close> occurs in \<open>b\<close> as a block.\<close>

fun str_in :: "string \<Rightarrow> string \<Rightarrow> bool" where
  "str_in a [] = (a = [])"
| "str_in a (c # cs) = (prefix a (c # cs) \<or> str_in a cs)"

definition NL :: char where
  "NL = CHR 0x0A"

definition CR :: char where
  "CR = CHR 0x0D"

text \<open>The line boundaries of \<open>str.splitlines\<close> below code point 256.\<close>

definition is_linebreak :: "char \<Rightarrow> bool" where
  "is_linebreak c =
     (let n = (of_char c :: nat)
      in (10 \<le> n \<and> n \<le> 13) \<or> (28 \<le> n \<and> n \<le> 30) \<or> n = 133)"

fun splitlines_from :: "string \<Rightarrow> string \<Rightarrow> string list" where
  "splitlines_from cur [] = (if cur = [] then [] else [cur])"
| "splitlines_from cur [c] = (if is_linebreak c then [cur] else [cur @ [c]])"
| "splitlines_from cur (c # d # cs) =
     (if c = CR \<and> d = NL then cur # splitlines_from [] cs
      else if is_linebreak c then cur # splitlines_from [] (d # cs)
      else splitlines_from (cur @ [c]) (d # cs))"

definition splitlines :: "string \<Rightarrow> string list" where
  "splitlines s = splitlines_from [] s"

text \<open>
  \<open>line.split(":", 1)\<close> unpacked into two names: \<open>None\<close> when the line has no colon
  (the unpacking raises \<open>ValueError\<close>).
\<close>

fun split_colon :: "string \<Rightarrow> (string \<times> string) option" where
  "split_colon [] = None"
| "split_colon (c # cs) =
     (if c = CHR '':'' then Some ([], cs)
      else (case split_colon cs of None \<Rightarrow> None | Some (a, b) \<Rightarrow> Some (c # a, b)))"

text \<open>\<open>os.path.join(a, b)\<close> of \<open>posixpath\<close>, for two components.\<close>

definition path_join :: "string \<Rightarrow> string \<Rightarrow> string" where
  "path_join a b =
     (if startswith b ''/'' then b
      else if a = [] \<or> endswith a ''/'' then a @ b
      else a @ ''/'' @ b)"

section \<open>Exceptions and values\<close>

text \<open>
  An exception carries its message (\<open>str(e)\<close>); the three classes are the ones the
  handlers of \<open>chat\<close> tell apart. \<open>HTTPError\<close> is a subclass of \<open>RequestException\<close>, every
  other exception is \<open>OtherException\<close>. A call that may raise returns \<open>exn + 'a\<close>.
\<close>

datatype exn = HTTPError string | RequestException string | OtherException string

fun exn_str :: "exn \<Rightarrow> string" where
  "exn_str (HTTPError m) = m"
| "exn_str (RequestException m) = m"
| "exn_str (OtherException m) = m"

text \<open>
  A decoded JSON document as the Python value \<open>json()\<close> returns; a \<open>dict\<close> is an
  association list read at the first binding of a key. Numbers are integers.
\<close>

datatype pyval =
    PNone
  | PBool bool
  | PInt int
  | PStr string
  | PList "pyval list"
  | PDict "(string \<times> pyval) list"

definition dict_get :: "(string \<times> pyval) list \<Rightarrow> string \<Rightarrow> pyval \<Rightarrow> pyval" where
  "dict_get kvs k dflt = (case map_of kvs k of None \<Rightarrow> dflt | Some v \<Rightarrow> v)"

record http_response =
  status_code :: nat
  error_text :: string
  json :: "exn + pyval"

text \<open>
  \<open>error_text\<close> is the message of the \<open>HTTPError\<close> that \<open>raise_for_status\<close> raises for
  this response; it raises exactly for the status codes from 400 up to 599.
\<close>

definition raises_for_status :: "http_response \<Rightarrow> bool" where
  "raises_for_status r = (400 \<le> status_code r \<and> status_code r < 600)"

section \<open>Configuration\<close>

definition UPLOAD_DIR :: string where
  "UPLOAD_DIR = ''uploads''"

definition MODEL_NAME :: string where
  "MODEL_NAME = ''granite3.2:2b''"

definition OLLAMA_CONTAINER_NAME :: string where
  "OLLAMA_CONTAINER_NAME = ''ollama_server''"

definition MAX_FILE_SIZE :: nat where
  "MAX_FILE_SIZE = 10 * 1024 * 1024"

definition max_prompt_length :: nat where
  "max_prompt_length = 4000"

definition TRUNCATION_MARKER :: string where
  "TRUNCATION_MARKER = ''... [Prompt truncated]''"

section \<open>The container runtime\<close>

text \<open>
  \<open>is_ollama_running\<close> takes what \<open>subprocess.run\<close> of the \<open>docker ps\<close> command gave:
  the captured standard output, or the exception it raised.
\<close>

definition is_ollama_running :: "exn + string \<Rightarrow> bool" where
  "is_ollama_running r =
     (case r of Inl e \<Rightarrow> False | Inr out \<Rightarrow> str_in OLLAMA_CONTAINER_NAME out)"

text \<open>
  The runtime is a state \<open>'d\<close> behind the four commands the code runs:
  \<open>docker ps --filter name=... --format {{.Names}}\<close> and
  \<open>docker ps -a --filter name=... --format {{.ID}}:{{.Status}}\<close> only read it,
  \<open>docker rm\<close> and \<open>docker run\<close> may change it. Each returns \<open>Inl\<close> when
  \<open>subprocess.run\<close> itself raises; an exit code is never looked at.
\<close>

record 'd docker =
  docker_ps :: "'d \<Rightarrow> exn + string"
  docker_ps_all :: "'d \<Rightarrow> exn + string"
  docker_rm :: "string \<Rightarrow> 'd \<Rightarrow> exn + 'd"
  docker_run :: "string list \<Rightarrow> 'd \<Rightarrow> exn + 'd"
  platform_system :: string

fun remove_lines :: "'d docker \<Rightarrow> string list \<Rightarrow> 'd \<Rightarrow> 'd" where
  "remove_lines D [] d = d"
| "remove_lines D (line # ls) d =
     (if line \<noteq> [] then
        (case split_colon line of
           None \<Rightarrow> d
         | Some (container_id, status) \<Rightarrow>
             if str_in ''Exited'' status \<or> str_in ''Created'' status \<or> str_in ''Dead'' status
             then (case docker_rm D container_id d of
                     Inl e \<Rightarrow> d
                   | Inr d' \<Rightarrow> remove_lines D ls d')
             else remove_lines D ls d)
      else remove_lines D ls d)"

definition remove_stopped_ollama_container :: "'d docker \<Rightarrow> 'd \<Rightarrow> 'd" where
  "remove_stopped_ollama_container D d =
     (case docker_ps_all D d of
        Inl e \<Rightarrow> d
      | Inr out \<Rightarrow> remove_lines D (splitlines (strip out)) d)"

definition docker_cmd :: "string \<Rightarrow> string list" where
  "docker_cmd system =
     [''docker'', ''run'', ''-d'', ''--name'', OLLAMA_CONTAINER_NAME, ''-p'', ''11434:11434'']
     @ (if system = ''Linux'' then [''--gpus'', ''all''] else [])
     @ [''ollama/ollama'']"

definition start_ollama_container :: "'d docker \<Rightarrow> 'd \<Rightarrow> (exn + bool) \<times> 'd" where
  "start_ollama_container D d =
     (if \<not> is_ollama_running (docker_ps D d) then
        (let d1 = remove_stopped_ollama_container D d
         in case docker_run D (docker_cmd (platform_system D)) d1 of
              Inl e \<Rightarrow> (Inl e, d1)
            | Inr d2 \<Rightarrow> (Inr True, d2))
      else (Inr False, d))"

text \<open>The handler of \<open>POST /ollama/start\<close>: the value of the \<open>started\<close> field.\<close>

definition ollama_start :: "'d docker \<Rightarrow> 'd \<Rightarrow> (exn + bool) \<times> 'd" where
  "ollama_start D d =
     (case start_ollama_container D d of
        (Inl e, d') \<Rightarrow> (Inl e, d')
      | (Inr started, d') \<Rightarrow> (Inr (started \<or> is_ollama_running (docker_ps D d')), d'))"

section \<open>The model registry\<close>

text \<open>
  \<open>any(m.get("name", "") == MODEL_NAME for m in tags)\<close> over a list: \<open>None\<close> when an
  element reached before the first match is not a \<open>dict\<close> (\<open>m.get\<close> raises).
\<close>

fun any_named :: "pyval list \<Rightarrow> bool option" where
  "any_named [] = Some False"
| "any_named (m # ms) =
     (case m of
        PDict kvs \<Rightarrow>
          if dict_get kvs ''name'' (PStr []) = PStr MODEL_NAME then Some True else any_named ms
      | _ \<Rightarrow> None)"

text \<open>
  \<open>is_model_available\<close> takes what \<open>requests.get\<close> of the tags endpoint gave. Every
  exception makes it \<open>False\<close>: a value that is no \<open>dict\<close> has no \<open>get\<close>, and \<open>models\<close>
  bound to anything but a list either cannot be iterated, or yields strings (the keys of a
  \<open>dict\<close>, the characters of a \<open>str\<close>), which have no \<open>get\<close> either.
\<close>

definition is_model_available :: "exn + http_response \<Rightarrow> bool" where
  "is_model_available got =
     (case got of
        Inl e \<Rightarrow> False
      | Inr r \<Rightarrow>
          if raises_for_status r then False
          else (case json r of
                  Inl e \<Rightarrow> False
                | Inr (PDict kvs) \<Rightarrow>
                    (case dict_get kvs ''models'' (PList []) of
                       PList tags \<Rightarrow> (case any_named tags of None \<Rightarrow> False | Some b \<Rightarrow> b)
                     | _ \<Rightarrow> False)
                | Inr _ \<Rightarrow> False))"

section \<open>Stored files\<close>

text \<open>
  A stored file is what the three readers used by \<open>chat\<close> give on it:
  \<open>os.path.getsize\<close>, \<open>open(..., "r", encoding="utf-8", errors="ignore").read()\<close> and
  \<open>pdfplumber.open\<close>. A page gives the result of \<open>extract_text()\<close> (which may be \<open>None\<close>)
  and the base64 text of its PNG rendering at resolution 300.
\<close>

record pdf_page =
  extract_text :: "exn + string option"
  to_image :: "exn + string"

record pdf_doc =
  pages :: "pdf_page list"
  metadata :: "string \<rightharpoonup> string"

record stored_file =
  getsize :: nat
  read_text :: "exn + string"
  pdf_open :: "exn + pdf_doc"

section \<open>Upload\<close>

text \<open>
  \<open>str(uuid.uuid4())\<close>: the 32 hexadecimal digits of the 128-bit identifier, most
  significant first, in groups of 8, 4, 4, 4 and 12 joined by hyphens.
\<close>

definition hex_digit :: "nat \<Rightarrow> char" where
  "hex_digit n = (''0123456789abcdef'') ! (n mod 16)"

definition uuid_hex :: "128 word \<Rightarrow> string" where
  "uuid_hex u = map (\<lambda>i. hex_digit (unat (drop_bit (4 * (31 - i)) u) mod 16)) [0..<32]"

definition uuid_str :: "128 word \<Rightarrow> string" where
  "uuid_str u =
     (let h = uuid_hex u
      in take 8 h @ ''-'' @ take 4 (drop 8 h) @ ''-'' @ take 4 (drop 12 h) @ ''-''
         @ take 4 (drop 16 h) @ ''-'' @ drop 20 h)"

record upload =
  filename :: string
  content :: stored_file

record upload_reply =
  reply_file_id :: string
  reply_filename :: string

text \<open>
  \<open>upload_file\<close> with the identifier \<open>uuid.uuid4()\<close> drew: the reply and the file system
  after the write.
\<close>

definition upload_file ::
  "128 word \<Rightarrow> upload \<Rightarrow> (string \<rightharpoonup> stored_file) \<Rightarrow> upload_reply \<times> (string \<rightharpoonup> stored_file)" where
  "upload_file u file files =
     (let file_id = uuid_str u;
          file_path = path_join UPLOAD_DIR file_id
      in (\<lparr>reply_file_id = file_id, reply_filename = filename file\<rparr>,
          files(file_path \<mapsto> content file)))"

section \<open>Chat\<close>

record ChatRequest =
  prompt :: "string option"
  file_id :: "string option"
  manual_text :: "string option"

record payload =
  p_model :: string
  p_prompt :: string
  p_images :: "string list"
  p_stream :: bool

text \<open>
  What a request finds outside the process: the output of \<open>docker ps\<close>, the answer of
  the tags endpoint, the upload directory's files by path, and the answer of the
  generation endpoint to a payload.
\<close>

record world =
  ps_result :: "exn + string"
  tags_result :: "exn + http_response"
  files :: "string \<rightharpoonup> stored_file"
  generate :: "payload \<Rightarrow> exn + http_response"

text \<open>The calls a request makes outside the process, in the order it makes them.\<close>

datatype event =
    DockerPs
  | GetTags
  | PathExists string
  | GetSize string
  | PdfOpen string
  | ReadText string
  | PostGenerate payload

text \<open>
  A handler returns a \<open>JSONResponse\<close> with an \<open>error\<close> field and a status code, or the
  \<open>dict\<close> with the \<open>response\<close> field, or lets an exception escape.
\<close>

datatype response =
    ErrorResponse string nat
  | ChatResponse pyval
  | Unhandled exn

text \<open>The loop over \<open>pdf.pages\<close> that builds \<open>extracted_text\<close>.\<close>

fun extract_pages :: "pdf_page list \<Rightarrow> string \<Rightarrow> exn + string" where
  "extract_pages [] extracted_text = Inr extracted_text"
| "extract_pages (page # ps) extracted_text =
     (case extract_text page of
        Inl e \<Rightarrow> Inl e
      | Inr None \<Rightarrow> extract_pages ps extracted_text
      | Inr (Some text) \<Rightarrow>
          if text \<noteq> [] then extract_pages ps (extracted_text @ text @ [NL])
          else extract_pages ps extracted_text)"

definition pdf_failed :: "exn \<Rightarrow> response" where
  "pdf_failed e = ErrorResponse (''Failed to process PDF: '' @ exn_str e) 400"

definition metadata_title :: "pdf_doc \<Rightarrow> string" where
  "metadata_title pdf =
     (case metadata pdf ''Title'' of
        None \<Rightarrow> ''Unknown''
      | Some t \<Rightarrow> if t = [] then ''Unknown'' else t)"

text \<open>The body of the \<open>try\<close> of the PDF branch: the content and the images, or the error.\<close>

definition extract_pdf :: "stored_file \<Rightarrow> response + (string \<times> string list)" where
  "extract_pdf f =
     (case pdf_open f of
        Inl e \<Rightarrow> Inl (pdf_failed e)
      | Inr pdf \<Rightarrow>
          (case extract_pages (pages pdf) [] of
             Inl e \<Rightarrow> Inl (pdf_failed e)
           | Inr extracted_text \<Rightarrow>
               if strip extracted_text \<noteq> [] then Inr (extracted_text, [])
               else (case pages pdf of
                       [] \<Rightarrow> Inl (pdf_failed (OtherException ''list index out of range''))
                     | page # ps \<Rightarrow>
                         (case to_image page of
                            Inl e \<Rightarrow> Inl (pdf_failed e)
                          | Inr img_base64 \<Rightarrow>
                              Inr (''Document metadata title: '' @ metadata_title pdf,
                                   [img_base64])))))"

definition read_plain :: "stored_file \<Rightarrow> response + (string \<times> string list)" where
  "read_plain f =
     (case read_text f of
        Inl e \<Rightarrow> Inl (ErrorResponse (''Failed to read file: '' @ exn_str e) 400)
      | Inr file_content \<Rightarrow> Inr (file_content, []))"

text \<open>The branch \<open>elif request.file_id\<close>, for a non-empty \<open>file_id\<close>.\<close>

definition extract_file ::
  "world \<Rightarrow> string \<Rightarrow> (response + (string \<times> string list)) \<times> event list" where
  "extract_file w fid =
     (let file_path = path_join UPLOAD_DIR fid
      in case files w file_path of
           None \<Rightarrow> (Inl (ErrorResponse ''File not found'' 404), [PathExists file_path])
         | Some f \<Rightarrow>
             if getsize f > MAX_FILE_SIZE
             then (Inl (ErrorResponse ''File too large'' 400),
                   [PathExists file_path, GetSize file_path])
             else
               (let is_pdf = endswith (lower file_path) ''.pdf'';
                    got = (if is_pdf then extract_pdf f else read_plain f);
                    evs = [PathExists file_path, GetSize file_path,
                           if is_pdf then PdfOpen file_path else ReadText file_path]
                in case got of
                     Inl err \<Rightarrow> (Inl err, evs)
                   | Inr (file_content, images) \<Rightarrow>
                       if strip file_content = [] \<and> images = []
                       then (Inl (ErrorResponse
                                    ''No text or image could be extracted from the file'' 400),
                             evs)
                       else (Inr (file_content, images), evs)))"

text \<open>
  The \<open>if\<close>/\<open>elif\<close> on the manual text and the file: \<open>file_content\<close> and \<open>images\<close>, or the
  error returned from the file branch. \<open>manual_override\<close> is the manual text when the
  condition \<open>request.manual_text and request.manual_text.strip()\<close> holds.
\<close>

definition manual_override :: "ChatRequest \<Rightarrow> string option" where
  "manual_override request =
     (case manual_text request of
        None \<Rightarrow> None
      | Some m \<Rightarrow> if m \<noteq> [] \<and> strip m \<noteq> [] then Some m else None)"

definition gather ::
  "world \<Rightarrow> ChatRequest \<Rightarrow> (response + (string \<times> string list)) \<times> event list" where
  "gather w request =
     (case manual_override request of
        Some file_content \<Rightarrow> (Inr (file_content, []), [])
      | None \<Rightarrow>
          (case file_id request of
             None \<Rightarrow> (Inr ([], []), [])
           | Some fid \<Rightarrow> if fid \<noteq> [] then extract_file w fid else (Inr ([], []), [])))"

text \<open>The templates for a request with document content and for one with images only.\<close>

definition document_prompt :: "string \<Rightarrow> string \<Rightarrow> string" where
  "document_prompt file_content user_prompt =
     (if strip user_prompt \<noteq> []
      then ''The user has uploaded a document. Document content:'' @ [NL] @ file_content
           @ [NL, NL] @ ''User message: '' @ user_prompt
      else ''The user has uploaded a document. Document content:'' @ [NL] @ file_content
           @ [NL, NL] @ ''Please analyze this document.'')"

definition image_prompt :: "string \<Rightarrow> string" where
  "image_prompt user_prompt =
     (if strip user_prompt \<noteq> []
      then ''The user has uploaded a document image. User message: '' @ user_prompt
      else ''The user has uploaded a document image. Please analyze the document content.'')"

text \<open>The check for no content, and the construction of the prompt.\<close>

definition compose :: "string \<Rightarrow> string \<Rightarrow> string list \<Rightarrow> response + string" where
  "compose user_prompt file_content images =
     (if strip file_content = [] \<and> images = [] \<and> strip user_prompt = []
      then Inl (ErrorResponse ''No prompt, file, or manual text provided.'' 400)
      else if strip file_content \<noteq> [] then Inr (document_prompt file_content user_prompt)
      else if images \<noteq> [] then Inr (image_prompt user_prompt)
      else Inr user_prompt)"

definition truncate_prompt :: "string \<Rightarrow> string" where
  "truncate_prompt p =
     (if length p > max_prompt_length then take max_prompt_length p @ TRUNCATION_MARKER
      else p)"

definition handle_exn :: "exn \<Rightarrow> response" where
  "handle_exn e =
     (case e of
        HTTPError m \<Rightarrow> ErrorResponse (''Ollama API error: '' @ m) 500
      | RequestException m \<Rightarrow> ErrorResponse (''Failed to connect to Ollama: '' @ m) 500
      | OtherException m \<Rightarrow> Unhandled e)"

text \<open>The message of the \<open>AttributeError\<close> of \<open>data.get\<close> on a value that is no \<open>dict\<close>.\<close>

fun type_name :: "pyval \<Rightarrow> string" where
  "type_name PNone = ''NoneType''"
| "type_name (PBool b) = ''bool''"
| "type_name (PInt i) = ''int''"
| "type_name (PStr s) = ''str''"
| "type_name (PList xs) = ''list''"
| "type_name (PDict kvs) = ''dict''"

definition no_attribute_get :: "pyval \<Rightarrow> string" where
  "no_attribute_get v =
     [CHR 0x27] @ type_name v @ [CHR 0x27] @ '' object has no attribute ''
     @ [CHR 0x27] @ ''get'' @ [CHR 0x27]"

text \<open>The \<open>try\<close> around the call of the generation endpoint.\<close>

definition send :: "world \<Rightarrow> payload \<Rightarrow> response" where
  "send w pl =
     (case generate w pl of
        Inl e \<Rightarrow> handle_exn e
      | Inr r \<Rightarrow>
          if raises_for_status r then handle_exn (HTTPError (error_text r))
          else (case json r of
                  Inl e \<Rightarrow> handle_exn e
                | Inr (PDict kvs) \<Rightarrow> ChatResponse (dict_get kvs ''response'' (PStr []))
                | Inr data \<Rightarrow> Unhandled (OtherException (no_attribute_get data))))"

definition chat :: "world \<Rightarrow> ChatRequest \<Rightarrow> response \<times> event list" where
  "chat w request =
     (if \<not> is_ollama_running (ps_result w)
      then (ErrorResponse ''Ollama container not running'' 400, [DockerPs])
      else if \<not> is_model_available (tags_result w)
      then (ErrorResponse (''Model '' @ MODEL_NAME @ '' not available'') 400, [DockerPs, GetTags])
      else
        (let user_prompt = (case prompt request of None \<Rightarrow> [] | Some p \<Rightarrow> p)
         in case gather w request of
              (Inl err, evs) \<Rightarrow> (err, [DockerPs, GetTags] @ evs)
            | (Inr (file_content, images), evs) \<Rightarrow>
                (case compose user_prompt file_content images of
                   Inl err \<Rightarrow> (err, [DockerPs, GetTags] @ evs)
                 | Inr composed \<Rightarrow>
                     (let pl = \<lparr>p_model = MODEL_NAME, p_prompt = truncate_prompt composed,
                                p_images = images, p_stream = False\<rparr>
                      in (send w pl, [DockerPs, GetTags] @ evs @ [PostGenerate pl])))))"

text \<open>The payloads a request posted to the generation endpoint.\<close>

fun posted :: "event list \<Rightarrow> payload list" where
  "posted [] = []"
| "posted (PostGenerate pl # evs) = pl # posted evs"
| "posted (ev # evs) = posted evs"

text \<open>
  The names of \<open>spec.md\<close> for the replies the handlers build, and for a request that
  passes both readiness checks.
\<close>

abbreviation ServiceUnavailable :: response where
  "ServiceUnavailable \<equiv> ErrorResponse ''Ollama container not running'' 400"

abbreviation ModelNotReady :: response where
  "ModelNotReady \<equiv> ErrorResponse ''Model granite3.2:2b not available'' 400"

abbreviation FileTooLarge :: response where
  "FileTooLarge \<equiv> ErrorResponse ''File too large'' 400"

abbreviation NoContentProvided :: response where
  "NoContentProvided \<equiv> ErrorResponse ''No prompt, file, or manual text provided.'' 400"

definition ready :: "world \<Rightarrow> bool" where
  "ready w = (is_ollama_running (ps_result w) \<and> is_model_available (tags_result w))"

section \<open>Example worlds\<close>

definition tags_with_model :: http_response where
  "tags_with_model =
     \<lparr>status_code = 200, error_text = [],
      json = Inr (PDict [(''models'', PList [PDict [(''name'', PStr ''granite3.2:2b'')]])])\<rparr>"

definition tags_without_model :: http_response where
  "tags_without_model =
     \<lparr>status_code = 200, error_text = [], json = Inr (PDict [(''models'', PList [])])\<rparr>"

definition answer_ok :: "payload \<Rightarrow> exn + http_response" where
  "answer_ok pl =
     Inr \<lparr>status_code = 200, error_text = [], json = Inr (PDict [(''response'', PStr ''ok'')])\<rparr>"

definition text_page :: pdf_page where
  "text_page = \<lparr>extract_text = Inr (Some ''Invoice 42''), to_image = Inr ''iVBORw0KGgo=''\<rparr>"

definition blank_page :: pdf_page where
  "blank_page = \<lparr>extract_text = Inr None, to_image = Inr ''iVBORw0KGgo=''\<rparr>"

definition report_pdf :: stored_file where
  "report_pdf =
     \<lparr>getsize = 2048, read_text = Inr ''%PDF-1.4'',
      pdf_open = Inr \<lparr>pages = [blank_page, text_page], metadata = Map.empty\<rparr>\<rparr>"

definition scan_pdf :: stored_file where
  "scan_pdf =
     \<lparr>getsize = 4096, read_text = Inr ''%PDF-1.4'',
      pdf_open = Inr \<lparr>pages = [blank_page], metadata = [''Title'' \<mapsto> ''Scan'']\<rparr>\<rparr>"

definition not_a_pdf :: exn where
  "not_a_pdf = OtherException ''No /Root object! - Is this really a PDF?''"

definition notes_file :: stored_file where
  "notes_file = \<lparr>getsize = 11, read_text = Inr ''hello world'', pdf_open = Inl not_a_pdf\<rparr>"

definition exact_file :: stored_file where
  "exact_file = \<lparr>getsize = 10485760, read_text = Inr ''hello world'', pdf_open = Inl not_a_pdf\<rparr>"

definition huge_file :: stored_file where
  "huge_file = \<lparr>getsize = 10485761, read_text = Inr ''hello world'', pdf_open = Inl not_a_pdf\<rparr>"

definition example_files :: "string \<rightharpoonup> stored_file" where
  "example_files =
     [''uploads/report.pdf'' \<mapsto> report_pdf,
      ''uploads/scan.PDF'' \<mapsto> scan_pdf,
      ''uploads/notes'' \<mapsto> notes_file,
      ''uploads/exact'' \<mapsto> exact_file,
      ''uploads/huge'' \<mapsto> huge_file]"

definition ready_world :: world where
  "ready_world =
     \<lparr>ps_result = Inr (''ollama_server'' @ [NL]), tags_result = Inr tags_with_model,
      files = example_files, generate = answer_ok\<rparr>"

definition down_world :: world where
  "down_world =
     \<lparr>ps_result = Inr [], tags_result = Inl (RequestException ''Connection refused''),
      files = example_files, generate = answer_ok\<rparr>"

definition answer_without_field :: "payload \<Rightarrow> exn + http_response" where
  "answer_without_field pl =
     Inr \<lparr>status_code = 200, error_text = [], json = Inr (PDict [(''done'', PBool True)])\<rparr>"

definition silent_world :: world where
  "silent_world =
     \<lparr>ps_result = Inr (''ollama_server'' @ [NL]), tags_result = Inr tags_with_model,
      files = example_files, generate = answer_without_field\<rparr>"

definition no_model_world :: world where
  "no_model_world =
     \<lparr>ps_result = Inr (''ollama_server'' @ [NL]), tags_result = Inr tags_without_model,
      files = example_files, generate = answer_ok\<rparr>"

text \<open>An upload named \<open>report.pdf\<close>, and the world after it was stored.\<close>

definition example_uuid :: "128 word" where
  "example_uuid = 0x123e4567e89b42d3a456426614174000"

definition example_upload :: upload where
  "example_upload = \<lparr>filename = ''report.pdf'', content = notes_file\<rparr>"

definition world_after_upload :: world where
  "world_after_upload =
     ready_world\<lparr>files := snd (upload_file example_uuid example_upload example_files)\<rparr>"

text \<open>
  Two container runtimes over the text that \<open>docker ps\<close> prints: in the first
  \<open>docker run\<close> exits without a running container, in the second it starts one.
\<close>

definition failing_docker :: "string docker" where
  "failing_docker =
     \<lparr>docker_ps = (\<lambda>d. Inr d), docker_ps_all = (\<lambda>d. Inr []),
      docker_rm = (\<lambda>container_id d. Inr d), docker_run = (\<lambda>cmd d. Inr d),
      platform_system = ''Linux''\<rparr>"

definition working_docker :: "string docker" where
  "working_docker =
     \<lparr>docker_ps = (\<lambda>d. Inr d), docker_ps_all = (\<lambda>d. Inr []),
      docker_rm = (\<lambda>container_id d. Inr d),
      docker_run = (\<lambda>cmd d. Inr (d @ ''ollama_server'' @ [NL])),
      platform_system = ''Linux''\<rparr>"

section \<open>Auxiliary facts\<close>

lemma all_dropWhile: "(\<forall>x\<in>set (dropWhile P xs). P x) \<longleftrightarrow> (\<forall>x\<in>set xs. P x)"
  by (induction xs) auto

lemma strip_Nil_iff: "strip s = [] \<longleftrightarrow> (\<forall>c\<in>set s. isspace c)"
  by (simp add: strip_def dropWhile_eq_Nil_conv all_dropWhile)

lemma strip_Nil: "strip [] = []"
  by (simp add: strip_def)

lemma posted_append: "posted (xs @ ys) = posted xs @ posted ys"
  by (induction xs rule: posted.induct) auto

lemma posted_extract_file: "posted (snd (extract_file w fid)) = []"
  by (auto simp: extract_file_def Let_def split: option.splits sum.splits prod.splits)

lemma posted_gather: "posted (snd (gather w request)) = []"
  by (simp add: gather_def posted_extract_file split: option.splits)

text \<open>A request posts at most once, and then its reply is what \<open>send\<close> makes of the answer.\<close>

lemma posted_chat:
  "posted (snd (chat w request)) = [] \<or>
   (\<exists>file_content images evs composed.
      gather w request = (Inr (file_content, images), evs) \<and>
      compose (case prompt request of None \<Rightarrow> [] | Some p \<Rightarrow> p) file_content images
        = Inr composed \<and>
      fst (chat w request) =
        send w \<lparr>p_model = MODEL_NAME, p_prompt = truncate_prompt composed,
                p_images = images, p_stream = False\<rparr> \<and>
      posted (snd (chat w request)) =
        [\<lparr>p_model = MODEL_NAME, p_prompt = truncate_prompt composed,
          p_images = images, p_stream = False\<rparr>])"
  using posted_gather [of w request]
  by (auto simp: chat_def Let_def posted_append split: sum.splits prod.splits)

lemma ready_world_ready: "ready ready_world"
  by (simp add: ready_def ready_world_def is_ollama_running_def OLLAMA_CONTAINER_NAME_def NL_def
      is_model_available_def tags_with_model_def raises_for_status_def dict_get_def MODEL_NAME_def)

lemma gather_file:
  "manual_override request = None \<Longrightarrow> file_id request = Some fid \<Longrightarrow> fid \<noteq> [] \<Longrightarrow>
   gather w request = extract_file w fid"
  by (simp add: gather_def)

lemma chat_ready:
  "ready w \<Longrightarrow> gather w request = (Inl err, evs) \<Longrightarrow>
   chat w request = (err, [DockerPs, GetTags] @ evs)"
  by (simp add: chat_def ready_def)

lemma chat_posts:
  assumes "ready w"
    and "gather w request = (Inr (file_content, images), evs)"
    and "compose (case prompt request of None \<Rightarrow> [] | Some p \<Rightarrow> p) file_content images
           = Inr composed"
  shows "chat w request =
     (send w \<lparr>p_model = MODEL_NAME, p_prompt = truncate_prompt composed,
              p_images = images, p_stream = False\<rparr>,
      [DockerPs, GetTags] @ evs @
      [PostGenerate \<lparr>p_model = MODEL_NAME, p_prompt = truncate_prompt composed,
                     p_images = images, p_stream = False\<rparr>])"
  using assms by (simp add: chat_def ready_def Let_def)

lemma example_paths:
  "path_join UPLOAD_DIR ''huge'' = ''uploads/huge''"
  "path_join UPLOAD_DIR ''exact'' = ''uploads/exact''"
  "path_join UPLOAD_DIR ''notes'' = ''uploads/notes''"
  "path_join UPLOAD_DIR ''report.pdf'' = ''uploads/report.pdf''"
  "path_join UPLOAD_DIR ''scan.PDF'' = ''uploads/scan.PDF''"
  by (simp_all add: path_join_def startswith_def endswith_def UPLOAD_DIR_def suffix_to_prefix)

lemma send_ready_world: "send ready_world pl = ChatResponse (PStr ''ok'')"
  by (simp add: send_def ready_world_def answer_ok_def raises_for_status_def dict_get_def)

lemma hello_nonblank: "strip ''hello world'' \<noteq> []"
  by (simp add: strip_Nil_iff isspace_def)

lemma down_world_down: "\<not> is_ollama_running (ps_result down_world)"
  by (simp add: down_world_def is_ollama_running_def OLLAMA_CONTAINER_NAME_def)

lemma document_prompt_eq:
  "document_prompt file_content user_prompt =
     ''The user has uploaded a document. Document content:'' @ [NL] @ file_content @ [NL, NL]
     @ (if strip user_prompt \<noteq> [] then ''User message: '' @ user_prompt
        else ''Please analyze this document.'')"
  by (simp add: document_prompt_def)

lemma truncate_prompt_eq:
  "truncate_prompt p =
     (if length p > 4000 then take 4000 p @ ''... [Prompt truncated]'' else p)"
  by (simp add: truncate_prompt_def max_prompt_length_def TRUNCATION_MARKER_def)

section \<open>The length of the posted prompt\<close>

lemma long_prompt_chat:
  "chat ready_world
     \<lparr>prompt = Some (replicate 4001 (CHR ''a'')), file_id = None, manual_text = None\<rparr>
   = (ChatResponse (PStr ''ok''),
      [DockerPs, GetTags,
       PostGenerate \<lparr>p_model = ''granite3.2:2b'',
                     p_prompt = replicate 4000 (CHR ''a'') @ ''... [Prompt truncated]'',
                     p_images = [], p_stream = False\<rparr>])"
proof -
  have s: "strip (replicate 4001 (CHR ''a'')) \<noteq> []"
    by (simp add: strip_Nil_iff isspace_def)
  show ?thesis
    using ready_world_ready
    by (simp add: chat_def ready_def gather_def manual_override_def compose_def s strip_Nil
        truncate_prompt_def max_prompt_length_def TRUNCATION_MARKER_def MODEL_NAME_def
        send_def ready_world_def answer_ok_def raises_for_status_def dict_get_def)
qed

text \<open>
  C2, as stated, fails: a request whose only content is a prompt of 4001 characters posts a
  prompt of 4022 characters, the first 4000 followed by the 22 characters of the marker.
\<close>

theorem long_prompt_posts_4022:
  "map (length \<circ> p_prompt)
     (posted (snd (chat ready_world
        \<lparr>prompt = Some (replicate 4001 (CHR ''a'')), file_id = None, manual_text = None\<rparr>)))
   = [4022]"
  by (simp add: long_prompt_chat)

text \<open>
  C2, amended: every prompt that \<open>chat\<close> posts to the generation endpoint has at most
  4000 characters plus the length of the truncation marker (4022 in all); it is the composed
  template itself when that has at most 4000 characters, and otherwise exactly the first
  4000 characters of the template followed by the marker.
\<close>

theorem posted_prompt_bounded:
  assumes "pl \<in> set (posted (snd (chat w request)))"
  shows "length (p_prompt pl) \<le> max_prompt_length + length TRUNCATION_MARKER \<and>
         max_prompt_length + length TRUNCATION_MARKER = 4022 \<and>
         (\<exists>file_content images evs composed.
            gather w request = (Inr (file_content, images), evs) \<and>
            compose (case prompt request of None \<Rightarrow> [] | Some p \<Rightarrow> p) file_content images
              = Inr composed \<and>
            p_prompt pl =
              (if length composed > 4000 then take 4000 composed @ ''... [Prompt truncated]''
               else composed))"
proof -
  from assms posted_chat [of w request]
  obtain file_content images evs composed
    where g: "gather w request = (Inr (file_content, images), evs)"
      and c: "compose (case prompt request of None \<Rightarrow> [] | Some p \<Rightarrow> p) file_content images
                = Inr composed"
      and p: "pl = \<lparr>p_model = MODEL_NAME, p_prompt = truncate_prompt composed,
                    p_images = images, p_stream = False\<rparr>"
    by auto
  have "p_prompt pl = truncate_prompt composed"
    using p by simp
  moreover have "length (truncate_prompt composed) \<le> max_prompt_length + length TRUNCATION_MARKER"
    by (simp add: truncate_prompt_def)
  ultimately show ?thesis
    using g c by (auto simp: truncate_prompt_def max_prompt_length_def TRUNCATION_MARKER_def)
qed

theorem posted_prompt_bounded_witness:
  "\<lparr>p_model = ''granite3.2:2b'',
    p_prompt = replicate 4000 (CHR ''a'') @ ''... [Prompt truncated]'',
    p_images = [], p_stream = False\<rparr>
     \<in> set (posted (snd (chat ready_world
          \<lparr>prompt = Some (replicate 4001 (CHR ''a'')), file_id = None, manual_text = None\<rparr>)))
   \<and> length (replicate 4000 (CHR ''a'') @ ''... [Prompt truncated]'')
       \<le> max_prompt_length + length TRUNCATION_MARKER"
proof -
  have m: "\<lparr>p_model = ''granite3.2:2b'',
            p_prompt = replicate 4000 (CHR ''a'') @ ''... [Prompt truncated]'',
            p_images = [], p_stream = False\<rparr>
     \<in> set (posted (snd (chat ready_world
          \<lparr>prompt = Some (replicate 4001 (CHR ''a'')), file_id = None, manual_text = None\<rparr>)))"
    by (simp add: long_prompt_chat)
  from posted_prompt_bounded [OF m] show ?thesis
    using m by simp
qed

section \<open>The readiness checks\<close>

lemma no_model_world_running:
  "is_ollama_running (ps_result no_model_world) \<and>
   \<not> is_model_available (tags_result no_model_world)"
  by (simp add: no_model_world_def is_ollama_running_def OLLAMA_CONTAINER_NAME_def NL_def
      is_model_available_def tags_without_model_def raises_for_status_def dict_get_def)

text \<open>
  C7: when the running check reports false, \<open>chat\<close> replies \<open>ServiceUnavailable\<close> having
  made that one call only (no call of the tags endpoint, none of the generation endpoint);
  when it reports true and the model check reports false, \<open>chat\<close> replies
  \<open>ModelNotReady\<close> after exactly these two calls; and when both report true, they are
  still the first two calls of the request, in this order.
\<close>

theorem readiness_checks_in_order:
  "(\<not> is_ollama_running (ps_result w) \<longrightarrow>
      chat w request = (ServiceUnavailable, [DockerPs])) \<and>
   (is_ollama_running (ps_result w) \<and> \<not> is_model_available (tags_result w) \<longrightarrow>
      chat w request = (ModelNotReady, [DockerPs, GetTags])) \<and>
   (is_ollama_running (ps_result w) \<and> is_model_available (tags_result w) \<longrightarrow>
      take 2 (snd (chat w request)) = [DockerPs, GetTags])"
  by (auto simp: chat_def MODEL_NAME_def Let_def split: sum.splits prod.splits)

theorem readiness_checks_in_order_witness:
  "\<not> is_ollama_running (ps_result down_world) \<and>
   chat down_world \<lparr>prompt = Some ''hi'', file_id = None, manual_text = None\<rparr>
     = (ServiceUnavailable, [DockerPs]) \<and>
   is_ollama_running (ps_result no_model_world) \<and>
   \<not> is_model_available (tags_result no_model_world) \<and>
   chat no_model_world \<lparr>prompt = Some ''hi'', file_id = None, manual_text = None\<rparr>
     = (ModelNotReady, [DockerPs, GetTags]) \<and>
   is_ollama_running (ps_result ready_world) \<and>
   is_model_available (tags_result ready_world) \<and>
   take 2 (snd (chat ready_world \<lparr>prompt = Some ''hi'', file_id = None, manual_text = None\<rparr>))
     = [DockerPs, GetTags]"
  using
    readiness_checks_in_order
      [of down_world "\<lparr>prompt = Some ''hi'', file_id = None, manual_text = None\<rparr>"]
    readiness_checks_in_order
      [of no_model_world "\<lparr>prompt = Some ''hi'', file_id = None, manual_text = None\<rparr>"]
    readiness_checks_in_order
      [of ready_world "\<lparr>prompt = Some ''hi'', file_id = None, manual_text = None\<rparr>"]
    down_world_down no_model_world_running ready_world_ready
  by (simp add: ready_def)

section \<open>A request with no content\<close>

text \<open>
  C8, as stated, fails: with the container not running, the request with no prompt, no
  file and no manual text is answered \<open>ServiceUnavailable\<close>, not \<open>NoContentProvided\<close>.
\<close>

theorem no_content_when_service_down:
  "chat down_world \<lparr>prompt = None, file_id = None, manual_text = None\<rparr>
     = (ServiceUnavailable, [DockerPs]) \<and>
   fst (chat down_world \<lparr>prompt = None, file_id = None, manual_text = None\<rparr>)
     \<noteq> NoContentProvided"
  using down_world_down by (simp add: chat_def)

text \<open>
  C8, amended: when the service is running and the model is available, every chat request
  with no prompt (or a blank prompt), no file identifier and no manual text is answered
  \<open>NoContentProvided\<close>, after the two readiness checks and nothing else.
\<close>

theorem no_content_provided:
  assumes "ready w"
    and "prompt request = None \<or> (\<exists>p. prompt request = Some p \<and> strip p = [])"
    and "file_id request = None"
    and "manual_text request = None"
  shows "chat w request = (NoContentProvided, [DockerPs, GetTags])"
  using assms
  by (auto simp: chat_def ready_def gather_def manual_override_def compose_def strip_Nil)

theorem no_content_provided_witness:
  "ready ready_world \<and>
   chat ready_world \<lparr>prompt = Some ''  '', file_id = None, manual_text = None\<rparr>
     = (NoContentProvided, [DockerPs, GetTags])"
proof -
  have b: "strip ''  '' = []"
    by (simp add: strip_Nil_iff isspace_def)
  from no_content_provided
    [of ready_world "\<lparr>prompt = Some ''  '', file_id = None, manual_text = None\<rparr>"]
  show ?thesis
    using ready_world_ready b by simp
qed

section \<open>Manual text\<close>

lemma gather_manual:
  "manual_text request = Some m \<Longrightarrow> strip m \<noteq> [] \<Longrightarrow> gather w request = (Inr (m, []), [])"
  by (auto simp: gather_def manual_override_def strip_Nil)

lemma abc_nonblank: "strip ''abc'' \<noteq> []"
  by (simp add: strip_Nil_iff isspace_def)

text \<open>
  C6: when the manual text is non-empty after trimming, it is the document content,
  unchanged, with no image, and getting it makes no call at all; whatever \<open>file_id\<close> the
  request carries, the request never looks a path up, never asks for a size and opens no
  file as PDF or as text; the composed prompt is the document header, a newline, the whole
  manual text, two newlines, and then the user message or the request to analyze; and when
  the readiness checks pass, that prompt is what is posted, cut to its first 4000
  characters and marked only when it is longer than that.
\<close>

theorem manual_text_precedence:
  fixes request :: ChatRequest and w :: world and m :: string
  defines "user_prompt \<equiv> (case prompt request of None \<Rightarrow> [] | Some p \<Rightarrow> p)"
  defines "composed \<equiv>
     ''The user has uploaded a document. Document content:'' @ [NL] @ m @ [NL, NL]
     @ (if strip user_prompt \<noteq> [] then ''User message: '' @ user_prompt
        else ''Please analyze this document.'')"
  assumes "manual_text request = Some m" and "strip m \<noteq> []"
  shows "gather w request = (Inr (m, []), []) \<and>
         set (snd (chat w request)) \<inter>
           (range PathExists \<union> range GetSize \<union> range PdfOpen \<union> range ReadText) = {} \<and>
         compose user_prompt m [] = Inr composed \<and>
         (ready w \<longrightarrow>
            posted (snd (chat w request)) =
              [\<lparr>p_model = ''granite3.2:2b'',
                p_prompt = (if length composed > 4000
                            then take 4000 composed @ ''... [Prompt truncated]''
                            else composed),
                p_images = [], p_stream = False\<rparr>])"
proof -
  have g: "gather w request = (Inr (m, []), [])"
    using assms(3,4) by (rule gather_manual)
  have ev: "set (snd (chat w request)) \<inter>
      (range PathExists \<union> range GetSize \<union> range PdfOpen \<union> range ReadText) = {}"
    by (auto simp: chat_def g Let_def split: sum.splits)
  have d: "document_prompt m user_prompt = composed"
    unfolding composed_def by (rule document_prompt_eq)
  have c: "compose user_prompt m [] = Inr composed"
    using assms(4) d by (simp add: compose_def)
  have "posted (snd (chat w request)) =
              [\<lparr>p_model = ''granite3.2:2b'',
                p_prompt = (if length composed > 4000
                            then take 4000 composed @ ''... [Prompt truncated]''
                            else composed),
                p_images = [], p_stream = False\<rparr>]" if "ready w"
    using chat_posts [OF that g] c
    by (simp add: user_prompt_def truncate_prompt_eq MODEL_NAME_def)
  with g ev c show ?thesis by blast
qed



theorem manual_text_precedence_witness:
  "strip ''abc'' \<noteq> [] \<and> ready ready_world \<and>
   posted (snd (chat ready_world
     \<lparr>prompt = Some ''summarize'', file_id = Some ''huge'', manual_text = Some ''abc''\<rparr>)) =
     [\<lparr>p_model = ''granite3.2:2b'',
       p_prompt = ''The user has uploaded a document. Document content:'' @ [NL] @ ''abc''
                  @ [NL, NL] @ ''User message: summarize'',
       p_images = [], p_stream = False\<rparr>] \<and>
   posted (snd (chat ready_world
     \<lparr>prompt = None, file_id = None, manual_text = Some ''abc''\<rparr>)) =
     [\<lparr>p_model = ''granite3.2:2b'',
       p_prompt = ''The user has uploaded a document. Document content:'' @ [NL] @ ''abc''
                  @ [NL, NL] @ ''Please analyze this document.'',
       p_images = [], p_stream = False\<rparr>]"
proof -
  have p: "strip ''summarize'' \<noteq> []"
    by (simp add: strip_Nil_iff isspace_def)
  from manual_text_precedence
    [of "\<lparr>prompt = Some ''summarize'', file_id = Some ''huge'', manual_text = Some ''abc''\<rparr>"
        "''abc''" ready_world]
    manual_text_precedence
    [of "\<lparr>prompt = None, file_id = None, manual_text = Some ''abc''\<rparr>"
        "''abc''" ready_world]
  show ?thesis
    using abc_nonblank ready_world_ready p by (simp add: strip_Nil)
qed

section \<open>The size guard\<close>

lemma extract_file_too_large:
  "files w (path_join UPLOAD_DIR fid) = Some f \<Longrightarrow> getsize f > MAX_FILE_SIZE \<Longrightarrow>
   extract_file w fid =
     (Inl FileTooLarge, [PathExists (path_join UPLOAD_DIR fid), GetSize (path_join UPLOAD_DIR fid)])"
  by (simp add: extract_file_def Let_def)

lemma extract_file_not_too_large:
  "files w (path_join UPLOAD_DIR fid) = Some f \<Longrightarrow> getsize f \<le> MAX_FILE_SIZE \<Longrightarrow>
   fst (extract_file w fid) \<noteq> Inl FileTooLarge"
  by (auto simp: extract_file_def Let_def extract_pdf_def read_plain_def pdf_failed_def
      split: sum.splits list.splits prod.splits)

lemma send_not_too_large: "send w pl \<noteq> FileTooLarge"
  by (auto simp: send_def handle_exn_def split: sum.splits exn.splits pyval.splits)

lemma chat_not_too_large:
  assumes "fst (gather w request) \<noteq> Inl FileTooLarge"
  shows "fst (chat w request) \<noteq> FileTooLarge"
  using assms send_not_too_large
  by (auto simp: chat_def Let_def compose_def split: sum.splits prod.splits if_splits)

text \<open>
  C5, amended: for a chat request that reaches the file branch (the readiness checks pass,
  there is no non-blank manual text, and the file exists), a stored file whose size is
  strictly above the cap of 10 MiB (10485760 bytes) makes the request fail with
  \<open>FileTooLarge\<close> after the lookup and the size call only, before the file is opened as
  PDF or as text; a file at or under the cap is not answered \<open>FileTooLarge\<close>.
\<close>

theorem file_too_large:
  assumes "ready w"
    and "manual_override request = None"
    and "file_id request = Some fid" and "fid \<noteq> []"
    and "files w (path_join UPLOAD_DIR fid) = Some f"
  shows "(getsize f > MAX_FILE_SIZE \<longrightarrow>
            chat w request =
              (FileTooLarge,
               [DockerPs, GetTags, PathExists (path_join UPLOAD_DIR fid),
                GetSize (path_join UPLOAD_DIR fid)])) \<and>
         (getsize f \<le> MAX_FILE_SIZE \<longrightarrow> fst (chat w request) \<noteq> FileTooLarge) \<and>
         MAX_FILE_SIZE = 10485760"
proof -
  have g: "gather w request = extract_file w fid"
    using assms(2-4) by (rule gather_file)
  have "getsize f > MAX_FILE_SIZE \<Longrightarrow> chat w request =
          (FileTooLarge, [DockerPs, GetTags, PathExists (path_join UPLOAD_DIR fid),
                GetSize (path_join UPLOAD_DIR fid)])"
    using chat_ready [OF assms(1)] g extract_file_too_large [OF assms(5)] by simp
  moreover have "getsize f \<le> MAX_FILE_SIZE \<Longrightarrow> fst (chat w request) \<noteq> FileTooLarge"
    using chat_not_too_large g extract_file_not_too_large [OF assms(5)] by simp
  moreover have "MAX_FILE_SIZE = 10485760"
    by (simp add: MAX_FILE_SIZE_def)
  ultimately show ?thesis by blast
qed


lemma exact_not_pdf: "\<not> endswith (lower ''uploads/exact'') ''.pdf''"
  by (simp add: endswith_def lower_def lower_char_def suffix_to_prefix)

lemma chat_exact:
  "chat ready_world \<lparr>prompt = None, file_id = Some ''exact'', manual_text = None\<rparr> =
     (ChatResponse (PStr ''ok''),
      [DockerPs, GetTags, PathExists ''uploads/exact'', GetSize ''uploads/exact'',
       ReadText ''uploads/exact'',
       PostGenerate
         \<lparr>p_model = ''granite3.2:2b'',
          p_prompt = ''The user has uploaded a document. Document content:'' @ [NL]
                     @ ''hello world'' @ [NL, NL] @ ''Please analyze this document.'',
          p_images = [], p_stream = False\<rparr>])"
proof -
  have f: "files ready_world ''uploads/exact'' = Some exact_file"
    by (simp add: ready_world_def example_files_def)
  have e: "extract_file ready_world ''exact'' =
      (Inr (''hello world'', []),
       [PathExists ''uploads/exact'', GetSize ''uploads/exact'', ReadText ''uploads/exact''])"
    using hello_nonblank exact_not_pdf
    by (simp add: extract_file_def Let_def example_paths f exact_file_def MAX_FILE_SIZE_def
        read_plain_def)
  have g: "gather ready_world \<lparr>prompt = None, file_id = Some ''exact'', manual_text = None\<rparr> =
      (Inr (''hello world'', []),
       [PathExists ''uploads/exact'', GetSize ''uploads/exact'', ReadText ''uploads/exact''])"
    by (simp add: gather_def manual_override_def e)
  have c: "compose [] ''hello world'' [] = Inr (document_prompt ''hello world'' [])"
    using hello_nonblank by (simp add: compose_def)
  have t: "truncate_prompt (document_prompt ''hello world'' []) =
      ''The user has uploaded a document. Document content:'' @ [NL]
                     @ ''hello world'' @ [NL, NL] @ ''Please analyze this document.''"
    by (simp add: document_prompt_def strip_Nil truncate_prompt_def max_prompt_length_def)
  from chat_posts [OF ready_world_ready g] c show ?thesis
    by (simp add: send_ready_world t MODEL_NAME_def)
qed

text \<open>
  C5, as stated, fails at the cap itself: a stored file of exactly 10 MiB is not rejected;
  it is read and its text is posted.
\<close>

theorem file_at_cap_not_rejected:
  "getsize exact_file = 10 * 1024 * 1024 \<and>
   files ready_world (path_join UPLOAD_DIR ''exact'') = Some exact_file \<and>
   chat ready_world \<lparr>prompt = None, file_id = Some ''exact'', manual_text = None\<rparr> =
     (ChatResponse (PStr ''ok''),
      [DockerPs, GetTags, PathExists ''uploads/exact'', GetSize ''uploads/exact'',
       ReadText ''uploads/exact'',
       PostGenerate
         \<lparr>p_model = ''granite3.2:2b'',
          p_prompt = ''The user has uploaded a document. Document content:'' @ [NL]
                     @ ''hello world'' @ [NL, NL] @ ''Please analyze this document.'',
          p_images = [], p_stream = False\<rparr>])"
proof -
  have "getsize exact_file = 10 * 1024 * 1024"
    by (simp add: exact_file_def)
  moreover have "files ready_world (path_join UPLOAD_DIR ''exact'') = Some exact_file"
    by (simp add: example_paths ready_world_def example_files_def)
  ultimately show ?thesis
    using chat_exact by blast
qed

theorem file_too_large_witness:
  "ready ready_world \<and>
   getsize huge_file > MAX_FILE_SIZE \<and>
   chat ready_world \<lparr>prompt = None, file_id = Some ''huge'', manual_text = None\<rparr> =
     (FileTooLarge, [DockerPs, GetTags, PathExists ''uploads/huge'', GetSize ''uploads/huge'']) \<and>
   getsize notes_file \<le> MAX_FILE_SIZE \<and>
   fst (chat ready_world \<lparr>prompt = None, file_id = Some ''notes'', manual_text = None\<rparr>)
     \<noteq> FileTooLarge"
proof -
  have h: "files ready_world (path_join UPLOAD_DIR ''huge'') = Some huge_file"
    by (simp add: example_paths ready_world_def example_files_def)
  have n: "files ready_world (path_join UPLOAD_DIR ''notes'') = Some notes_file"
    by (simp add: example_paths ready_world_def example_files_def)
  have hs: "getsize huge_file > MAX_FILE_SIZE"
    by (simp add: huge_file_def MAX_FILE_SIZE_def)
  have ns: "getsize notes_file \<le> MAX_FILE_SIZE"
    by (simp add: notes_file_def MAX_FILE_SIZE_def)
  from file_too_large [OF ready_world_ready _ _ _ h,
      of "\<lparr>prompt = None, file_id = Some ''huge'', manual_text = None\<rparr>"]
    file_too_large [OF ready_world_ready _ _ _ n,
      of "\<lparr>prompt = None, file_id = Some ''notes'', manual_text = None\<rparr>"]
  show ?thesis
    using ready_world_ready hs ns by (simp add: manual_override_def example_paths)
qed

section \<open>The reply of the generation endpoint\<close>

lemma chat_reply_of_posted:
  assumes "pl \<in> set (posted (snd (chat w request)))"
  shows "fst (chat w request) = send w pl"
  using assms posted_chat [of w request] by auto

lemma send_ok:
  assumes "generate w pl = Inr r" and "\<not> raises_for_status r" and "json r = Inr (PDict kvs)"
  shows "send w pl = ChatResponse (dict_get kvs ''response'' (PStr []))"
  using assms by (simp add: send_def)

text \<open>
  C10: when the generation endpoint answers the posted payload with a status from 200 to
  299 and a JSON object, \<open>chat\<close> replies with the value bound to \<open>response\<close> in that
  object, and with the empty string when the object has no such field.
\<close>

theorem lenient_response_field:
  assumes "pl \<in> set (posted (snd (chat w request)))"
    and "generate w pl = Inr r"
    and "200 \<le> status_code r" and "status_code r < 300"
    and "json r = Inr (PDict kvs)"
  shows "fst (chat w request) =
           ChatResponse (case map_of kvs ''response'' of None \<Rightarrow> PStr [] | Some v \<Rightarrow> v)"
proof -
  have "\<not> raises_for_status r"
    using assms(4) by (simp add: raises_for_status_def)
  then have "send w pl = ChatResponse (dict_get kvs ''response'' (PStr []))"
    using assms(2,5) by (simp add: send_ok)
  then show ?thesis
    using chat_reply_of_posted [OF assms(1)] by (simp add: dict_get_def)
qed

lemma hi_nonblank: "strip ''hi'' \<noteq> []"
  by (simp add: strip_Nil_iff isspace_def)

lemma silent_world_ready: "ready silent_world"
  by (simp add: ready_def silent_world_def is_ollama_running_def OLLAMA_CONTAINER_NAME_def NL_def
      is_model_available_def tags_with_model_def raises_for_status_def dict_get_def MODEL_NAME_def)

lemma chat_hi:
  assumes "ready w"
  shows "chat w \<lparr>prompt = Some ''hi'', file_id = None, manual_text = None\<rparr> =
     (send w \<lparr>p_model = MODEL_NAME, p_prompt = ''hi'', p_images = [], p_stream = False\<rparr>,
      [DockerPs, GetTags,
       PostGenerate \<lparr>p_model = MODEL_NAME, p_prompt = ''hi'', p_images = [], p_stream = False\<rparr>])"
proof -
  have g: "gather w \<lparr>prompt = Some ''hi'', file_id = None, manual_text = None\<rparr> = (Inr ([], []), [])"
    by (simp add: gather_def manual_override_def)
  have c: "compose ''hi'' [] [] = Inr ''hi''"
    using hi_nonblank by (simp add: compose_def strip_Nil)
  from chat_posts [OF assms g] c show ?thesis
    by (simp add: truncate_prompt_def max_prompt_length_def)
qed

theorem lenient_response_field_witness:
  "fst (chat ready_world \<lparr>prompt = Some ''hi'', file_id = None, manual_text = None\<rparr>)
     = ChatResponse (PStr ''ok'') \<and>
   fst (chat silent_world \<lparr>prompt = Some ''hi'', file_id = None, manual_text = None\<rparr>)
     = ChatResponse (PStr [])"
proof -
  let ?pl = "\<lparr>p_model = MODEL_NAME, p_prompt = ''hi'', p_images = [], p_stream = False\<rparr>"
  let ?rq = "\<lparr>prompt = Some ''hi'', file_id = None, manual_text = None\<rparr>"
  have m1: "?pl \<in> set (posted (snd (chat ready_world ?rq)))"
    by (simp add: chat_hi [OF ready_world_ready])
  have m2: "?pl \<in> set (posted (snd (chat silent_world ?rq)))"
    by (simp add: chat_hi [OF silent_world_ready])
  have g1: "generate ready_world ?pl =
      Inr \<lparr>status_code = 200, error_text = [], json = Inr (PDict [(''response'', PStr ''ok'')])\<rparr>"
    by (simp add: ready_world_def answer_ok_def)
  have g2: "generate silent_world ?pl =
      Inr \<lparr>status_code = 200, error_text = [], json = Inr (PDict [(''done'', PBool True)])\<rparr>"
    by (simp add: silent_world_def answer_without_field_def)
  from lenient_response_field [OF m1 g1] lenient_response_field [OF m2 g2]
  show ?thesis by simp
qed

section \<open>Extraction from a PDF\<close>

lemma extract_file_pdf:
  assumes "endswith (lower (path_join UPLOAD_DIR fid)) ''.pdf''"
    and "files w (path_join UPLOAD_DIR fid) = Some f"
    and "getsize f \<le> MAX_FILE_SIZE"
    and "extract_pdf f = Inr (file_content, images)"
    and "strip file_content \<noteq> []"
  shows "extract_file w fid =
           (Inr (file_content, images),
            [PathExists (path_join UPLOAD_DIR fid), GetSize (path_join UPLOAD_DIR fid),
             PdfOpen (path_join UPLOAD_DIR fid)])"
  using assms by (simp add: extract_file_def Let_def)

lemma posted_of_file:
  assumes "ready w" and "manual_override request = None"
    and "file_id request = Some fid" and "fid \<noteq> []"
    and "extract_file w fid = (Inr (file_content, images), evs)"
    and "strip file_content \<noteq> []"
  shows "posted (snd (chat w request)) =
           [\<lparr>p_model = MODEL_NAME,
             p_prompt = truncate_prompt
               (document_prompt file_content (case prompt request of None \<Rightarrow> [] | Some p \<Rightarrow> p)),
             p_images = images, p_stream = False\<rparr>]"
proof -
  have g: "gather w request = (Inr (file_content, images), evs)"
    using assms(2-5) by (simp add: gather_file)
  have c: "compose (case prompt request of None \<Rightarrow> [] | Some p \<Rightarrow> p) file_content images
      = Inr (document_prompt file_content (case prompt request of None \<Rightarrow> [] | Some p \<Rightarrow> p))"
    using assms(6) by (simp add: compose_def)
  have e: "posted evs = []"
    using posted_extract_file [of w fid] assms(5) by simp
  show ?thesis
    by (simp add: chat_posts [OF assms(1) g c] posted_append e)
qed

text \<open>What a page adds to \<open>extracted_text\<close> when its \<open>extract_text\<close> returns.\<close>

lemma extract_pages_all_return:
  assumes "\<forall>page\<in>set ps. \<exists>t. extract_text page = Inr t"
  shows "extract_pages ps acc =
     Inr (acc @ concat (map (\<lambda>page. case extract_text page of
                                 Inr (Some t) \<Rightarrow> if t \<noteq> [] then t @ [NL] else []
                               | _ \<Rightarrow> []) ps))"
  using assms
proof (induction ps arbitrary: acc)
  case Nil
  then show ?case by simp
next
  case (Cons page ps)
  then obtain t where t: "extract_text page = Inr t"
    by auto
  have "\<forall>page\<in>set ps. \<exists>t. extract_text page = Inr t"
    using Cons.prems by simp
  then show ?case
    using t Cons.IH by (cases t) simp_all
qed

lemma strip_nonblank_mono:
  assumes "strip t \<noteq> []" and "set t \<subseteq> set s"
  shows "strip s \<noteq> []"
  using assms by (auto simp: strip_Nil_iff)

text \<open>
  C1: take a stored file whose path ends in \<open>.pdf\<close> in any letter case, whose size is
  under the cap, and which has a non-empty text layer: it opens as a PDF, \<open>extract_text\<close>
  returns on every page, and on some page it returns a text that is not blank. Then
  extraction takes the PDF branch and returns the text layer (each non-empty page text
  followed by a newline, in page order), which is not blank, and no image; a chat request
  for the file then posts the document template around that text, with an empty image
  list.
\<close>

theorem pdf_text_layer:
  fixes pdf :: pdf_doc and request :: ChatRequest
  defines "text_layer \<equiv>
     concat (map (\<lambda>page. case extract_text page of
                            Inr (Some t) \<Rightarrow> if t \<noteq> [] then t @ [NL] else []
                          | _ \<Rightarrow> []) (pages pdf))"
  defines "user_prompt \<equiv> (case prompt request of None \<Rightarrow> [] | Some p \<Rightarrow> p)"
  defines "composed \<equiv>
     ''The user has uploaded a document. Document content:'' @ [NL] @ text_layer @ [NL, NL]
     @ (if strip user_prompt \<noteq> [] then ''User message: '' @ user_prompt
        else ''Please analyze this document.'')"
  assumes "endswith (lower (path_join UPLOAD_DIR fid)) ''.pdf''"
    and "files w (path_join UPLOAD_DIR fid) = Some f"
    and "getsize f < MAX_FILE_SIZE"
    and "pdf_open f = Inr pdf"
    and "\<forall>page\<in>set (pages pdf). \<exists>t. extract_text page = Inr t"
    and "\<exists>page\<in>set (pages pdf). \<exists>t. extract_text page = Inr (Some t) \<and> strip t \<noteq> []"
  shows "strip text_layer \<noteq> [] \<and>
         extract_file w fid =
           (Inr (text_layer, []),
            [PathExists (path_join UPLOAD_DIR fid), GetSize (path_join UPLOAD_DIR fid),
             PdfOpen (path_join UPLOAD_DIR fid)]) \<and>
         (ready w \<and> manual_override request = None \<and> file_id request = Some fid \<and> fid \<noteq> []
            \<longrightarrow> posted (snd (chat w request)) =
                  [\<lparr>p_model = ''granite3.2:2b'',
                    p_prompt = (if length composed > 4000
                                then take 4000 composed @ ''... [Prompt truncated]''
                                else composed),
                    p_images = [], p_stream = False\<rparr>])"
proof -
  have x: "extract_pages (pages pdf) [] = Inr text_layer"
    unfolding text_layer_def using extract_pages_all_return [OF assms(8), of "[]"] by simp
  obtain page t where pg: "page \<in> set (pages pdf)" and t: "extract_text page = Inr (Some t)"
    and nb: "strip t \<noteq> []"
    using assms(9) by blast
  have "t \<noteq> []"
    using nb by (auto simp: strip_Nil)
  then have "set t \<subseteq> set text_layer"
    unfolding text_layer_def using pg t by force
  then have n: "strip text_layer \<noteq> []"
    using nb by (rule strip_nonblank_mono [rotated])
  have p: "extract_pdf f = Inr (text_layer, [])"
    using assms(7) x n by (simp add: extract_pdf_def)
  have e: "extract_file w fid =
           (Inr (text_layer, []),
            [PathExists (path_join UPLOAD_DIR fid), GetSize (path_join UPLOAD_DIR fid),
             PdfOpen (path_join UPLOAD_DIR fid)])"
    using assms(4,5,6) n p by (simp add: extract_file_pdf)
  have d: "document_prompt text_layer user_prompt = composed"
    unfolding composed_def by (rule document_prompt_eq)
  have "posted (snd (chat w request)) =
                  [\<lparr>p_model = ''granite3.2:2b'',
                    p_prompt = (if length composed > 4000
                                then take 4000 composed @ ''... [Prompt truncated]''
                                else composed),
                    p_images = [], p_stream = False\<rparr>]"
    if "ready w" and "manual_override request = None" and "file_id request = Some fid"
      and "fid \<noteq> []"
    using posted_of_file [OF that e n] d
    by (simp add: user_prompt_def truncate_prompt_eq MODEL_NAME_def)
  with n e show ?thesis by blast
qed


text \<open>
  C9: for a stored file whose path ends in \<open>.pdf\<close> in any letter case, whose size is under
  the cap, which opens as a PDF whose text layer is blank, and whose first page renders,
  extraction returns exactly one image, the rendering of the first page, together with the
  text \<open>Document metadata title: \<close> followed by the \<open>Title\<close> of the metadata, or by
  \<open>Unknown\<close> when the title is missing or empty; this text is never blank, and a chat
  request for the file posts both: the document template around the text, and the image.
\<close>

theorem pdf_raster_fallback:
  assumes "endswith (lower (path_join UPLOAD_DIR fid)) ''.pdf''"
    and "files w (path_join UPLOAD_DIR fid) = Some f"
    and "getsize f < MAX_FILE_SIZE"
    and "pdf_open f = Inr pdf"
    and "extract_pages (pages pdf) [] = Inr extracted_text"
    and "strip extracted_text = []"
    and "pages pdf = page # rest"
    and "to_image page = Inr img_base64"
  shows "extract_file w fid =
           (Inr (''Document metadata title: '' @ metadata_title pdf, [img_base64]),
            [PathExists (path_join UPLOAD_DIR fid), GetSize (path_join UPLOAD_DIR fid),
             PdfOpen (path_join UPLOAD_DIR fid)]) \<and>
         metadata_title pdf =
           (case metadata pdf ''Title'' of
              None \<Rightarrow> ''Unknown'' | Some t \<Rightarrow> if t = [] then ''Unknown'' else t) \<and>
         strip (''Document metadata title: '' @ metadata_title pdf) \<noteq> [] \<and>
         (ready w \<and> manual_override request = None \<and> file_id request = Some fid \<and> fid \<noteq> []
            \<longrightarrow> posted (snd (chat w request)) =
                  [\<lparr>p_model = MODEL_NAME,
                    p_prompt = truncate_prompt
                      (document_prompt (''Document metadata title: '' @ metadata_title pdf)
                         (case prompt request of None \<Rightarrow> [] | Some p \<Rightarrow> p)),
                    p_images = [img_base64], p_stream = False\<rparr>])"
proof -
  have n: "strip (''Document metadata title: '' @ metadata_title pdf) \<noteq> []"
    by (simp add: strip_Nil_iff isspace_def)
  have p: "extract_pdf f = Inr (''Document metadata title: '' @ metadata_title pdf, [img_base64])"
    using assms(4-8) by (simp add: extract_pdf_def)
  have e: "extract_file w fid =
           (Inr (''Document metadata title: '' @ metadata_title pdf, [img_base64]),
            [PathExists (path_join UPLOAD_DIR fid), GetSize (path_join UPLOAD_DIR fid),
             PdfOpen (path_join UPLOAD_DIR fid)])"
    using assms(1,2,3) p n by (simp add: extract_file_pdf)
  then show ?thesis
    using n by (simp add: posted_of_file metadata_title_def)
qed


lemma report_is_pdf: "endswith (lower (path_join UPLOAD_DIR ''report.pdf'')) ''.pdf''"
  by (simp add: example_paths endswith_def lower_def lower_char_def suffix_to_prefix)

lemma scan_is_pdf: "endswith (lower (path_join UPLOAD_DIR ''scan.PDF'')) ''.pdf''"
  by (simp add: example_paths endswith_def lower_def lower_char_def suffix_to_prefix char_of_def bit_Suc_0_iff)

theorem pdf_text_layer_witness:
  "endswith (lower (path_join UPLOAD_DIR ''report.pdf'')) ''.pdf'' \<and>
   getsize report_pdf < MAX_FILE_SIZE \<and>
   pdf_open report_pdf = Inr \<lparr>pages = [blank_page, text_page], metadata = Map.empty\<rparr> \<and>
   extract_text blank_page = Inr None \<and>
   extract_text text_page = Inr (Some ''Invoice 42'') \<and>
   strip ''Invoice 42'' \<noteq> [] \<and>
   ready ready_world \<and>
   extract_file ready_world ''report.pdf'' =
     (Inr (''Invoice 42'' @ [NL], []),
      [PathExists ''uploads/report.pdf'', GetSize ''uploads/report.pdf'',
       PdfOpen ''uploads/report.pdf'']) \<and>
   posted (snd (chat ready_world
       \<lparr>prompt = None, file_id = Some ''report.pdf'', manual_text = None\<rparr>)) =
     [\<lparr>p_model = ''granite3.2:2b'',
       p_prompt = ''The user has uploaded a document. Document content:'' @ [NL]
                  @ ''Invoice 42'' @ [NL, NL, NL] @ ''Please analyze this document.'',
       p_images = [], p_stream = False\<rparr>]"
proof -
  let ?pdf = "\<lparr>pages = [blank_page, text_page], metadata = Map.empty\<rparr>"
  have f: "files ready_world (path_join UPLOAD_DIR ''report.pdf'') = Some report_pdf"
    by (simp add: example_paths ready_world_def example_files_def)
  have s: "getsize report_pdf < MAX_FILE_SIZE"
    by (simp add: report_pdf_def MAX_FILE_SIZE_def)
  have o: "pdf_open report_pdf = Inr ?pdf"
    by (simp add: report_pdf_def)
  have b: "extract_text blank_page = Inr None"
    by (simp add: blank_page_def)
  have t: "extract_text text_page = Inr (Some ''Invoice 42'')"
    by (simp add: text_page_def)
  have n: "strip ''Invoice 42'' \<noteq> []"
    by (simp add: strip_Nil_iff isspace_def)
  have a: "\<forall>page\<in>set (pages ?pdf). \<exists>t. extract_text page = Inr t"
    using b t by simp
  have e: "\<exists>page\<in>set (pages ?pdf). \<exists>t. extract_text page = Inr (Some t) \<and> strip t \<noteq> []"
    using t n by simp
  from pdf_text_layer [OF report_is_pdf f s o a e,
      of "\<lparr>prompt = None, file_id = Some ''report.pdf'', manual_text = None\<rparr>"]
  show ?thesis
    using report_is_pdf s o b t n ready_world_ready
    by (simp add: example_paths manual_override_def strip_Nil)
qed

theorem pdf_raster_fallback_witness:
  "endswith (lower (path_join UPLOAD_DIR ''scan.PDF'')) ''.pdf'' \<and>
   getsize scan_pdf < MAX_FILE_SIZE \<and>
   ready ready_world \<and>
   extract_file ready_world ''scan.PDF'' =
     (Inr (''Document metadata title: Scan'', [''iVBORw0KGgo='']),
      [PathExists ''uploads/scan.PDF'', GetSize ''uploads/scan.PDF'',
       PdfOpen ''uploads/scan.PDF'']) \<and>
   posted (snd (chat ready_world
       \<lparr>prompt = None, file_id = Some ''scan.PDF'', manual_text = None\<rparr>)) =
     [\<lparr>p_model = ''granite3.2:2b'',
       p_prompt = ''The user has uploaded a document. Document content:'' @ [NL]
                  @ ''Document metadata title: Scan'' @ [NL, NL]
                  @ ''Please analyze this document.'',
       p_images = [''iVBORw0KGgo=''], p_stream = False\<rparr>]"
proof -
  let ?pdf = "\<lparr>pages = [blank_page], metadata = [''Title'' \<mapsto> ''Scan'']\<rparr>"
  have f: "files ready_world (path_join UPLOAD_DIR ''scan.PDF'') = Some scan_pdf"
    by (simp add: example_paths ready_world_def example_files_def)
  have s: "getsize scan_pdf < MAX_FILE_SIZE"
    by (simp add: scan_pdf_def MAX_FILE_SIZE_def)
  have o: "pdf_open scan_pdf = Inr ?pdf"
    by (simp add: scan_pdf_def)
  have x: "extract_pages (pages ?pdf) [] = Inr []"
    by (simp add: blank_page_def)
  have g: "pages ?pdf = blank_page # []"
    by simp
  have i: "to_image blank_page = Inr ''iVBORw0KGgo=''"
    by (simp add: blank_page_def)
  have t: "metadata_title ?pdf = ''Scan''"
    by (simp add: metadata_title_def)
  from pdf_raster_fallback [OF scan_is_pdf f s o x strip_Nil g i,
      of "\<lparr>prompt = None, file_id = Some ''scan.PDF'', manual_text = None\<rparr>"]
  show ?thesis
    using scan_is_pdf s ready_world_ready
    by (simp add: t example_paths manual_override_def document_prompt_def strip_Nil
        truncate_prompt_def max_prompt_length_def MODEL_NAME_def)
qed

section \<open>Starting the service\<close>

text \<open>
  C4, amended: whenever the start operation returns a value, it is \<open>started = true\<close>: so
  it is true if the service is running after the call, whether it was already running
  before it (the call then changes nothing) or was started by it; and it is true as well
  when the service was not running and a start was attempted, whatever came of it.
\<close>

theorem ollama_start_started:
  assumes "ollama_start D d = (Inr started, d')"
  shows "(is_ollama_running (docker_ps D d') \<longrightarrow> started) \<and>
         (\<not> is_ollama_running (docker_ps D d) \<longrightarrow> started) \<and>
         (is_ollama_running (docker_ps D d) \<longrightarrow> started \<and> d' = d)"
  using assms
  by (auto simp: ollama_start_def start_ollama_container_def Let_def
      split: if_splits sum.splits prod.splits)

lemma remove_stopped_nothing_listed:
  "docker_ps_all D d = Inr [] \<Longrightarrow> remove_stopped_ollama_container D d = d"
  by (simp add: remove_stopped_ollama_container_def strip_Nil splitlines_def)

text \<open>
  C4, as stated, fails: when \<open>docker run\<close> returns without a running container, the
  operation answers \<open>started = true\<close> and the service is not running after the call.
\<close>

theorem start_reported_but_not_running:
  "ollama_start failing_docker [] = (Inr True, []) \<and>
   \<not> is_ollama_running (docker_ps failing_docker [])"
proof -
  have r: "remove_stopped_ollama_container failing_docker [] = []"
    by (rule remove_stopped_nothing_listed) (simp add: failing_docker_def)
  have n: "\<not> is_ollama_running (docker_ps failing_docker [])"
    by (simp add: failing_docker_def is_ollama_running_def OLLAMA_CONTAINER_NAME_def)
  have "start_ollama_container failing_docker [] = (Inr True, [])"
    using n by (simp add: start_ollama_container_def r) (simp add: failing_docker_def)
  then show ?thesis
    using n by (simp add: ollama_start_def)
qed

theorem ollama_start_started_witness:
  "ollama_start working_docker [] = (Inr True, ''ollama_server'' @ [NL]) \<and>
   is_ollama_running (docker_ps working_docker (''ollama_server'' @ [NL])) \<and>
   \<not> is_ollama_running (docker_ps working_docker []) \<and>
   ollama_start working_docker (''ollama_server'' @ [NL]) = (Inr True, ''ollama_server'' @ [NL])"
proof -
  have r: "remove_stopped_ollama_container working_docker [] = []"
    by (rule remove_stopped_nothing_listed) (simp add: working_docker_def)
  have n: "\<not> is_ollama_running (docker_ps working_docker [])"
    by (simp add: working_docker_def is_ollama_running_def OLLAMA_CONTAINER_NAME_def)
  have y: "is_ollama_running (docker_ps working_docker (''ollama_server'' @ [NL]))"
    by (simp add: working_docker_def is_ollama_running_def OLLAMA_CONTAINER_NAME_def NL_def)
  have s: "start_ollama_container working_docker [] = (Inr True, ''ollama_server'' @ [NL])"
    using n by (simp add: start_ollama_container_def r) (simp add: working_docker_def)
  have a: "ollama_start working_docker [] = (Inr True, ''ollama_server'' @ [NL])"
    by (simp add: ollama_start_def s)
  have b: "ollama_start working_docker (''ollama_server'' @ [NL])
      = (Inr True, ''ollama_server'' @ [NL])"
    using y by (simp add: ollama_start_def start_ollama_container_def)
  from ollama_start_started [OF a] ollama_start_started [OF b] show ?thesis
    using a b n y by simp
qed

section \<open>Uploaded files\<close>

lemma hex_digit_in: "hex_digit n \<in> set ''0123456789abcdef''"
proof -
  have "n mod 16 < length ''0123456789abcdef''"
    by simp
  then show ?thesis
    unfolding hex_digit_def by (rule nth_mem)
qed

lemma uuid_hex_chars: "set (uuid_hex u) \<subseteq> set ''0123456789abcdef''"
  using hex_digit_in by (auto simp: uuid_hex_def)

lemma length_uuid_hex: "length (uuid_hex u) = 32"
  by (simp add: uuid_hex_def)

lemma uuid_str_unfold:
  "uuid_str u = take 8 (uuid_hex u) @ ''-'' @ take 4 (drop 8 (uuid_hex u)) @ ''-''
     @ take 4 (drop 12 (uuid_hex u)) @ ''-'' @ take 4 (drop 16 (uuid_hex u)) @ ''-''
     @ drop 20 (uuid_hex u)"
  unfolding uuid_str_def Let_def by (rule refl)

lemma uuid_str_chars: "set (uuid_str u) \<subseteq> set ''0123456789abcdef-''"
proof -
  have t: "set (take n xs) \<subseteq> insert (CHR ''-'') (set xs)" for n and xs :: string
    using set_take_subset [of n xs] by blast
  have d: "set (drop n xs) \<subseteq> insert (CHR ''-'') (set xs)" for n and xs :: string
    using set_drop_subset [of n xs] by blast
  have td: "set (take n (drop m xs)) \<subseteq> insert (CHR ''-'') (set xs)" for n m and xs :: string
    using set_take_subset [of n "drop m xs"] set_drop_subset [of m xs] by blast
  have "set (uuid_str u) \<subseteq> insert (CHR ''-'') (set (uuid_hex u))"
    unfolding uuid_str_unfold
    apply (simp only: set_append Un_subset_iff t d td)
    apply simp
    done
  moreover have "set ''0123456789abcdef-'' = insert (CHR ''-'') (set ''0123456789abcdef'')"
    by (simp add: insert_commute)
  then have "insert (CHR ''-'') (set (uuid_hex u)) \<subseteq> set ''0123456789abcdef-''"
    using insert_mono [OF uuid_hex_chars [of u], of "CHR ''-''"] by (simp only:)
  ultimately show ?thesis
    by (rule subset_trans)
qed

lemma length_uuid_str: "length (uuid_str u) = 36"
  by (simp only: uuid_str_unfold length_append length_take length_drop length_uuid_hex) simp

lemma uuid_str_no_dot: "CHR ''.'' \<notin> set (uuid_str u)"
  using uuid_str_chars [of u] by auto

lemma uuid_str_no_slash: "CHR ''/'' \<notin> set (uuid_str u)"
  using uuid_str_chars [of u] by auto

lemma uuid_path: "path_join UPLOAD_DIR (uuid_str u) = ''uploads/'' @ uuid_str u"
proof -
  have "\<not> prefix ''/'' (uuid_str u)"
    using uuid_str_no_slash [of u] by (auto simp: prefix_def)
  then show ?thesis
    by (simp add: path_join_def startswith_def endswith_def UPLOAD_DIR_def suffix_to_prefix)
qed

lemma lower_uuid_str: "lower (uuid_str u) = uuid_str u"
proof -
  have "\<forall>c\<in>set ''0123456789abcdef-''. lower_char c = c"
    by (simp add: lower_char_def)
  then have "\<forall>c\<in>set (uuid_str u). lower_char c = c"
    using uuid_str_chars [of u] by blast
  then show ?thesis
    unfolding lower_def by (simp add: map_idI)
qed

lemma uuid_path_not_pdf: "\<not> endswith (lower (path_join UPLOAD_DIR (uuid_str u))) ''.pdf''"
proof
  assume "endswith (lower (path_join UPLOAD_DIR (uuid_str u))) ''.pdf''"
  then have "suffix ''.pdf'' (lower ''uploads/'' @ uuid_str u)"
    using lower_uuid_str [of u] by (simp add: endswith_def uuid_path lower_def)
  then consider "suffix ''.pdf'' (uuid_str u)"
    | xs where "''.pdf'' = xs @ uuid_str u"
    by (auto simp: suffix_append)
  then show False
  proof cases
    case 1
    then have "set ''.pdf'' \<subseteq> set (uuid_str u)"
      by (rule set_mono_suffix)
    then show False
      using uuid_str_no_dot [of u] by simp
  next
    case 2
    then have "length ''.pdf'' = length xs + length (uuid_str u)"
      by (metis length_append)
    then show False
      by (simp add: length_uuid_str)
  qed
qed


lemma extract_file_no_pdf_open:
  assumes "\<not> endswith (lower (path_join UPLOAD_DIR fid)) ''.pdf''"
  shows "PdfOpen p \<notin> set (snd (extract_file w fid))"
  using assms
  by (auto simp: extract_file_def Let_def split: option.splits sum.splits prod.splits)

lemma gather_no_pdf_open:
  assumes "file_id request = Some fid"
    and "\<not> endswith (lower (path_join UPLOAD_DIR fid)) ''.pdf''"
  shows "PdfOpen p \<notin> set (snd (gather w request))"
  using assms extract_file_no_pdf_open [of fid p w]
  by (simp add: gather_def split: option.splits)

lemma chat_events:
  "set (snd (chat w request)) \<subseteq>
     {DockerPs, GetTags} \<union> set (snd (gather w request)) \<union> range PostGenerate"
  by (auto simp: chat_def Let_def split: sum.splits prod.splits)

lemma chat_no_pdf_open:
  assumes "file_id request = Some fid"
    and "\<not> endswith (lower (path_join UPLOAD_DIR fid)) ''.pdf''"
  shows "PdfOpen p \<notin> set (snd (chat w request))"
  using gather_no_pdf_open [OF assms, of p w] chat_events [of w request] by auto

lemma gather_events_in_chat:
  "ready w \<Longrightarrow> set (snd (gather w request)) \<subseteq> set (snd (chat w request))"
  by (auto simp: chat_def ready_def Let_def split: sum.splits prod.splits)

lemma extract_file_reads_text:
  assumes "\<not> endswith (lower (path_join UPLOAD_DIR fid)) ''.pdf''"
    and "files w (path_join UPLOAD_DIR fid) = Some f"
    and "getsize f \<le> MAX_FILE_SIZE"
  shows "ReadText (path_join UPLOAD_DIR fid) \<in> set (snd (extract_file w fid))"
  using assms
  by (auto simp: extract_file_def Let_def split: sum.splits prod.splits)

text \<open>
  C3: \<open>upload_file\<close> stores the file under the upload directory joined with the text of
  the identifier it drew, and replies with that text as \<open>file_id\<close>; the text has no dot,
  so the path has no extension, whatever the name of the uploaded file. A chat request
  with that \<open>file_id\<close> never opens a file as PDF, in any world; and when it reaches the file
  (the readiness checks pass, no manual text overrides it, the file system is the one
  upload left, and the content passes the size guard), it reads the file as plain text.
\<close>

theorem uploaded_file_read_as_text:
  assumes "upload_file u file fs = (reply, fs')"
    and "file_id request = Some (reply_file_id reply)"
  shows "reply_file_id reply = uuid_str u \<and>
         fs' = fs(''uploads/'' @ uuid_str u \<mapsto> content file) \<and>
         CHR ''.'' \<notin> set (uuid_str u) \<and>
         (\<forall>p. PdfOpen p \<notin> set (snd (chat w request))) \<and>
         (ready w \<and> manual_override request = None \<and> files w = fs' \<and>
          getsize (content file) \<le> MAX_FILE_SIZE
            \<longrightarrow> ReadText (''uploads/'' @ uuid_str u) \<in> set (snd (chat w request)))"
proof -
  have r: "reply_file_id reply = uuid_str u"
    using assms(1) by (auto simp: upload_file_def Let_def)
  have f: "fs' = fs(''uploads/'' @ uuid_str u \<mapsto> content file)"
    using assms(1) by (auto simp: upload_file_def Let_def uuid_path)
  have i: "file_id request = Some (uuid_str u)"
    using assms(2) r by simp
  have n: "\<forall>p. PdfOpen p \<notin> set (snd (chat w request))"
    using chat_no_pdf_open [OF i uuid_path_not_pdf] by blast
  have t: "ReadText (''uploads/'' @ uuid_str u) \<in> set (snd (chat w request))"
    if "ready w" and "manual_override request = None" and "files w = fs'"
      and "getsize (content file) \<le> MAX_FILE_SIZE"
  proof -
    have "uuid_str u \<noteq> []"
      using length_uuid_str [of u] by auto
    then have g: "gather w request = extract_file w (uuid_str u)"
      using that(2) i by (simp add: gather_file)
    have "files w (path_join UPLOAD_DIR (uuid_str u)) = Some (content file)"
      using that(3) f by (simp add: uuid_path)
    then have "ReadText (path_join UPLOAD_DIR (uuid_str u)) \<in> set (snd (extract_file w (uuid_str u)))"
      using that(4) by (simp add: extract_file_reads_text [OF uuid_path_not_pdf])
    then show ?thesis
      using gather_events_in_chat [OF that(1), of request] g by (auto simp: uuid_path)
  qed
  show ?thesis
    using r f n t uuid_str_no_dot [of u] by blast
qed

lemma example_uuid_str: "uuid_str example_uuid = ''123e4567-e89b-42d3-a456-426614174000''"
  by (simp add: example_uuid_def uuid_str_def uuid_hex_def hex_digit_def upt_rec drop_bit_eq_div
      unat_div)

theorem uploaded_file_read_as_text_witness:
  "reply_file_id (fst (upload_file example_uuid example_upload example_files))
     = ''123e4567-e89b-42d3-a456-426614174000'' \<and>
   ready world_after_upload \<and>
   getsize (content example_upload) \<le> MAX_FILE_SIZE \<and>
   ReadText ''uploads/123e4567-e89b-42d3-a456-426614174000''
     \<in> set (snd (chat world_after_upload
          \<lparr>prompt = None, file_id = Some ''123e4567-e89b-42d3-a456-426614174000'',
           manual_text = None\<rparr>))"
proof -
  let ?rq = "\<lparr>prompt = None, file_id = Some ''123e4567-e89b-42d3-a456-426614174000'',
           manual_text = None\<rparr>"
  have u: "upload_file example_uuid example_upload example_files =
      (fst (upload_file example_uuid example_upload example_files),
       snd (upload_file example_uuid example_upload example_files))"
    by simp
  have i: "reply_file_id (fst (upload_file example_uuid example_upload example_files))
      = ''123e4567-e89b-42d3-a456-426614174000''"
    by (simp add: upload_file_def Let_def example_uuid_str)
  have q: "file_id ?rq = Some (reply_file_id (fst (upload_file example_uuid example_upload example_files)))"
    by (simp add: i)
  have rw: "ready world_after_upload"
    using ready_world_ready by (simp add: ready_def world_after_upload_def)
  have fw: "files world_after_upload = snd (upload_file example_uuid example_upload example_files)"
    by (simp add: world_after_upload_def)
  have sz: "getsize (content example_upload) \<le> MAX_FILE_SIZE"
    by (simp add: example_upload_def notes_file_def MAX_FILE_SIZE_def)
  have mo: "manual_override ?rq = None"
    by (simp add: manual_override_def)
  from uploaded_file_read_as_text [OF u q, of world_after_upload]
  show ?thesis
    using i rw fw sz mo by (simp add: example_uuid_str)
qed

end
